theory Spec2Isabelle
  imports Complex_Main "HOL-Library.AList"
begin

section \<open>Values of the Python program\<close>

text \<open>
  The script \<^verbatim>\<open>src/v3/main.py\<close> handles values that come out of \<^verbatim>\<open>json.load\<close> and
  \<^verbatim>\<open>response.json()\<close>: \<^verbatim>\<open>None\<close>, booleans, integers, floats, strings, lists and dicts.
  A dict is kept as an association list read with \<open>map_of\<close>; a float is kept by its
  rational value (the non-standard literals NaN and Infinity are not represented).
\<close>

datatype json =
    JNull
  | JBool bool
  | JInt int
  | JFloat rat
  | JStr string
  | JArr "json list"
  | JObj "(string \<times> json) list"

type_synonym dict = "(string \<times> json) list"

text \<open>Python truthiness, as used by \<^verbatim>\<open>if access_token:\<close>, \<^verbatim>\<open>if config:\<close> and the like.\<close>

fun truthy :: "json \<Rightarrow> bool" where
  "truthy JNull = False"
| "truthy (JBool b) = b"
| "truthy (JInt i) = (i \<noteq> 0)"
| "truthy (JFloat r) = (r \<noteq> 0)"
| "truthy (JStr s) = (s \<noteq> [])"
| "truthy (JArr xs) = (xs \<noteq> [])"
| "truthy (JObj kvs) = (kvs \<noteq> [])"

text \<open>The exceptions that can leave a function of the script.\<close>

datatype exn =
    AttributeError
  | KeyError string
  | EOFError
  | OSError
  | ScheduleError

text \<open>\<^verbatim>\<open>d.get(k)\<close> on a dict: the value, or \<^verbatim>\<open>None\<close> when the key is missing.\<close>

definition dict_get :: "dict \<Rightarrow> string \<Rightarrow> json" where
  "dict_get d k = (case map_of d k of None \<Rightarrow> JNull | Some v \<Rightarrow> v)"

text \<open>\<^verbatim>\<open>x.get(k)\<close> on any value: only a dict has the method.\<close>

definition py_get :: "json \<Rightarrow> string \<Rightarrow> exn + json" where
  "py_get x k = (case x of JObj d \<Rightarrow> Inr (dict_get d k) | _ \<Rightarrow> Inl AttributeError)"

text \<open>\<^verbatim>\<open>d[k]\<close> on a dict: raises \<^verbatim>\<open>KeyError\<close> when the key is missing.\<close>

definition dict_item :: "dict \<Rightarrow> string \<Rightarrow> exn + json" where
  "dict_item d k = (case map_of d k of None \<Rightarrow> Inl (KeyError k) | Some v \<Rightarrow> Inr v)"

section \<open>The outside world\<close>

text \<open>
  The HTTP transport, the clock, the console, the scheduler library and Python's own
  \<^verbatim>\<open>str\<close> are primitives. A call of \<^verbatim>\<open>requests.post\<close> or \<^verbatim>\<open>requests.put\<close> is recorded with
  the arguments the script passes.
\<close>

datatype http_method = POST | PUT

record request =
  req_method :: http_method
  req_url :: string
  req_headers :: "(string \<times> string) list"
  req_json :: json

text \<open>
  What \<^verbatim>\<open>response.json()\<close> does: it returns the parsed body, or raises a decoding error
  with a text. The flag says whether that error is also a
  \<^verbatim>\<open>requests.exceptions.RequestException\<close> (it is from requests 2.27 on), which decides
  the \<^verbatim>\<open>except\<close> clause that catches it; it is a \<^verbatim>\<open>json.JSONDecodeError\<close> in both cases.
\<close>

datatype body = NotJson bool string | Json json

record response =
  status_code :: nat
  http_error_text :: string
  content :: body

text \<open>
  A request either raises a \<^verbatim>\<open>RequestException\<close> (with its text) before any response
  arrives, or returns a response.
\<close>

datatype reply = Raised string | Returned response

text \<open>
  \<^verbatim>\<open>response.raise_for_status()\<close> raises an \<^verbatim>\<open>HTTPError\<close> (a \<^verbatim>\<open>RequestException\<close>) exactly
  for the status codes 400 to 599; the result is the text of that error.
\<close>

definition raise_for_status :: "response \<Rightarrow> string option" where
  "raise_for_status r =
     (if 400 \<le> status_code r \<and> status_code r < 600 then Some (http_error_text r) else None)"

datatype file_read = FileNotFound | Undecodable | Unreadable | Contents json

datatype event =
    Print string
  | Call request
  | Sleep nat
  | Prompt string

text \<open>
  The world holds the answers of the environment and the trace of what the script has
  done so far, in order. The network answers a call from the calls made up to and
  including it; the clock is read at a position of the trace.
\<close>

record world =
  str_of :: "json \<Rightarrow> string"
  at_ok :: "json \<Rightarrow> bool"
  config_file :: file_read
  net :: "request list \<Rightarrow> reply"
  clock :: "nat \<Rightarrow> string"
  trace :: "event list"

definition emit :: "event \<Rightarrow> world \<Rightarrow> world" where
  "emit e w = w\<lparr>trace := trace w @ [e]\<rparr>"

definition print :: "string \<Rightarrow> world \<Rightarrow> world" where
  "print s w = emit (Print s) w"

fun call_of :: "event \<Rightarrow> request option" where
  "call_of (Call r) = Some r"
| "call_of _ = None"

fun line_of :: "event \<Rightarrow> string option" where
  "line_of (Print s) = Some s"
| "line_of _ = None"

definition calls :: "world \<Rightarrow> request list" where
  "calls w = List.map_filter call_of (trace w)"

definition printed :: "world \<Rightarrow> string list" where
  "printed w = List.map_filter line_of (trace w)"

definition http :: "request \<Rightarrow> world \<Rightarrow> reply \<times> world" where
  "http r w = (net w (calls w @ [r]), emit (Call r) w)"

definition strftime :: "world \<Rightarrow> string" where
  "strftime w = clock w (length (trace w))"

text \<open>
  A replacement field \<^verbatim>\<open>{v}\<close> of an f-string, and \<^verbatim>\<open>print(v)\<close>: a string stands for
  itself, any other value goes through \<^verbatim>\<open>str\<close>.
\<close>

definition fstr :: "world \<Rightarrow> json \<Rightarrow> string" where
  "fstr w v = (case v of JStr s \<Rightarrow> s | _ \<Rightarrow> str_of w v)"

definition quote :: string where
  "quote = [CHR 0x27]"

text \<open>\<^verbatim>\<open>str.lower\<close> and \<^verbatim>\<open>str.capitalize\<close> on ASCII letters; other characters stay.\<close>

definition lower_char :: "char \<Rightarrow> char" where
  "lower_char c =
     (case map_of (zip ''ABCDEFGHIJKLMNOPQRSTUVWXYZ'' ''abcdefghijklmnopqrstuvwxyz'') c of
        None \<Rightarrow> c | Some d \<Rightarrow> d)"

definition upper_char :: "char \<Rightarrow> char" where
  "upper_char c =
     (case map_of (zip ''abcdefghijklmnopqrstuvwxyz'' ''ABCDEFGHIJKLMNOPQRSTUVWXYZ'') c of
        None \<Rightarrow> c | Some d \<Rightarrow> d)"

definition lower :: "string \<Rightarrow> string" where
  "lower s = map lower_char s"

definition capitalize :: "string \<Rightarrow> string" where
  "capitalize s = (case s of [] \<Rightarrow> [] | c # cs \<Rightarrow> upper_char c # map lower_char cs)"

section \<open>Config loader (lines 10 to 23)\<close>

definition load_config :: "world \<Rightarrow> (exn + json) \<times> world" where
  "load_config w =
     (case config_file w of
        Contents v \<Rightarrow> (Inr v, w)
      | FileNotFound \<Rightarrow>
          (Inr JNull,
           print ''Error: Configuration file 'config.json' not found.'' w)
      | Undecodable \<Rightarrow>
          (Inr JNull,
           print ''Error: Could not decode JSON from 'config.json'. Please check the file format.'' w)
      | Unreadable \<Rightarrow> (Inl OSError, w))"

section \<open>Auth client (lines 25 to 96)\<close>

definition get_access_token ::
  "json \<Rightarrow> json \<Rightarrow> json \<Rightarrow> world \<Rightarrow> (exn + json option) \<times> world" where
  "get_access_token server_address username password w =
     (let login_url = fstr w server_address @ ''/api/login'';
          payload = JObj [(''username'', username), (''password'', password)];
          (rep, w1) = http \<lparr>req_method = POST, req_url = login_url, req_headers = [],
                            req_json = payload\<rparr> w
      in case rep of
           Raised e \<Rightarrow> (Inr None, print (''Error during login: '' @ e) w1)
         | Returned r \<Rightarrow>
             (case raise_for_status r of
                Some e \<Rightarrow> (Inr None, print (''Error during login: '' @ e) w1)
              | None \<Rightarrow>
                  (case content r of
                     NotJson is_request_exception e \<Rightarrow>
                       if is_request_exception
                       then (Inr None, print (''Error during login: '' @ e) w1)
                       else (Inr None,
                             print ''Error: Could not decode JSON response from login.'' w1)
                   | Json data \<Rightarrow>
                       (case py_get data ''access_token'' of
                          Inl x \<Rightarrow> (Inl x, w1)
                        | Inr access_token \<Rightarrow>
                            if truthy access_token then (Inr (Some access_token), w1)
                            else (Inr None,
                                  print ''Error: Access token not found in login response.'' w1)))))"

definition refresh_access_token ::
  "json \<Rightarrow> json \<Rightarrow> json \<Rightarrow> world \<Rightarrow> (exn + json option) \<times> world" where
  "refresh_access_token server_address username password w =
     (let login_url = fstr w server_address @ ''/api/login'';
          payload = JObj [(''username'', username), (''password'', password)];
          (rep, w1) = http \<lparr>req_method = POST, req_url = login_url, req_headers = [],
                            req_json = payload\<rparr> w
      in case rep of
           Raised e \<Rightarrow> (Inr None, print (''Error during token refresh: '' @ e) w1)
         | Returned r \<Rightarrow>
             (case raise_for_status r of
                Some e \<Rightarrow> (Inr None, print (''Error during token refresh: '' @ e) w1)
              | None \<Rightarrow>
                  (case content r of
                     NotJson is_request_exception e \<Rightarrow>
                       if is_request_exception
                       then (Inr None, print (''Error during token refresh: '' @ e) w1)
                       else (Inr None,
                             print ''Error: Could not decode JSON response from token refresh.'' w1)
                   | Json data \<Rightarrow>
                       (case py_get data ''access_token'' of
                          Inl x \<Rightarrow> (Inl x, w1)
                        | Inr access_token \<Rightarrow>
                            if truthy access_token
                            then (Inr (Some access_token),
                                  print ''Successfully refreshed access token.'' w1)
                            else (Inr None,
                                  print ''Error: Access token not found in refresh response.'' w1)))))"

section \<open>Command dispatcher (lines 98 to 138)\<close>

text \<open>
  The function has no \<^verbatim>\<open>return\<close> statement: wherever it returns, it returns \<^verbatim>\<open>None\<close>
  (\<open>JNull\<close>). The success line reads \<^verbatim>\<open>payload['command'].capitalize()\<close>, which raises
  when the key is missing or its value is not a string.
\<close>

definition send_restreamer_command ::
  "json \<Rightarrow> json \<Rightarrow> json \<Rightarrow> dict \<Rightarrow> bool \<Rightarrow> world \<Rightarrow> (exn + json) \<times> world" where
  "send_restreamer_command server_address process_id authorization_token payload is_snapshot w =
     (let process_identifier = ''restreamer-ui%3Aingest%3A'' @ fstr w process_id;
          process_identifier =
            (if is_snapshot then process_identifier @ ''_snapshot'' else process_identifier);
          command_url =
            fstr w server_address @ ''/api/v3/process/'' @ process_identifier @ ''/command'';
          headers = [(''Content-Type'', ''application/json''),
                     (''Authorization'', ''Bearer '' @ fstr w authorization_token)];
          failed = (\<lambda>e. print (''Error sending command to process '' @ quote
                                 @ fstr w process_id @ quote @ '': '' @ e));
          (rep, w1) = http \<lparr>req_method = PUT, req_url = command_url, req_headers = headers,
                            req_json = JObj payload\<rparr> w
      in case rep of
           Raised e \<Rightarrow> (Inr JNull, failed e w1)
         | Returned r \<Rightarrow>
             (case raise_for_status r of
                Some e \<Rightarrow> (Inr JNull, failed e w1)
              | None \<Rightarrow>
                  (case dict_item payload ''command'' of
                     Inl x \<Rightarrow> (Inl x, w1)
                   | Inr (JStr verb) \<Rightarrow>
                       (let w2 = print (capitalize verb @ '' command sent successfully to process ''
                                        @ quote @ fstr w process_id @ quote @ ''. Response:'') w1
                        in case content r of
                             NotJson is_request_exception e \<Rightarrow>
                               if is_request_exception then (Inr JNull, failed e w2)
                               else (Inr JNull, print ''Error decoding JSON response.'' w2)
                           | Json v \<Rightarrow> (Inr JNull, print (fstr w v) w2))
                   | Inr _ \<Rightarrow> (Inl AttributeError, w1))))"

text \<open>
  The three subscriptions \<^verbatim>\<open>config['server_address']\<close>, \<^verbatim>\<open>config['process_id']\<close> and
  \<^verbatim>\<open>config['authorization_token']\<close>, evaluated left to right as the arguments of each call
  of the dispatcher.
\<close>

definition stream_args :: "dict \<Rightarrow> exn + json \<times> json \<times> json" where
  "stream_args config =
     (case dict_item config ''server_address'' of
        Inl x \<Rightarrow> Inl x
      | Inr a \<Rightarrow>
          (case dict_item config ''process_id'' of
             Inl x \<Rightarrow> Inl x
           | Inr p \<Rightarrow>
               (case dict_item config ''authorization_token'' of
                  Inl x \<Rightarrow> Inl x
                | Inr t \<Rightarrow> Inr (a, p, t))))"

definition connect_stream :: "dict \<Rightarrow> world \<Rightarrow> (exn + json) \<times> world" where
  "connect_stream config w =
     (let w1 = print (''Connecting stream at '' @ strftime w) w
      in case stream_args config of
           Inl x \<Rightarrow> (Inl x, w1)
         | Inr (a, p, t) \<Rightarrow>
             (case send_restreamer_command a p t [(''command'', JStr ''start'')] False w1 of
                (Inl x, w2) \<Rightarrow> (Inl x, w2)
              | (Inr _, w2) \<Rightarrow>
                  (case stream_args config of
                     Inl x \<Rightarrow> (Inl x, w2)
                   | Inr (a, p, t) \<Rightarrow>
                       (case send_restreamer_command a p t [(''command'', JStr ''start'')] True w2 of
                          (Inl x, w3) \<Rightarrow> (Inl x, w3)
                        | (Inr _, w3) \<Rightarrow> (Inr JNull, print ''Stream connection initiated.'' w3)))))"

definition disconnect_stream :: "dict \<Rightarrow> world \<Rightarrow> (exn + json) \<times> world" where
  "disconnect_stream config w =
     (let w1 = print (''Disconnecting stream at '' @ strftime w) w
      in case stream_args config of
           Inl x \<Rightarrow> (Inl x, w1)
         | Inr (a, p, t) \<Rightarrow>
             (case send_restreamer_command a p t [(''command'', JStr ''stop'')] True w1 of
                (Inl x, w2) \<Rightarrow> (Inl x, w2)
              | (Inr _, w2) \<Rightarrow>
                  (case stream_args config of
                     Inl x \<Rightarrow> (Inl x, w2)
                   | Inr (a, p, t) \<Rightarrow>
                       (case send_restreamer_command a p t [(''command'', JStr ''stop'')] False w2 of
                          (Inl x, w3) \<Rightarrow> (Inl x, w3)
                        | (Inr _, w3) \<Rightarrow>
                            (Inr JNull, print ''Stream disconnection initiated.'' w3)))))"

section \<open>Entry point and scheduler loop (lines 140 to 199)\<close>

text \<open>
  A registered job is a function with its bound arguments. The two daily jobs are bound
  to the \<^verbatim>\<open>config\<close> dict of the entry point (the same object, read when the job runs); the
  refresh job is bound to the three credential values.
\<close>

datatype job = ConnectJob | DisconnectJob | RefreshJob json json json

record prog =
  config :: dict
  jobs :: "job list"

text \<open>
  One pass of the loop gets from the environment the registered jobs that are due (by
  their position in the job list, in the order the scheduler runs them) and the line that
  \<^verbatim>\<open>input\<close> returns (\<open>None\<close> when the console is at end of file).
\<close>

record tick =
  due :: "nat list"
  typed :: "string option"

text \<open>
  How the process ends: with an exit status, with an uncaught exception (Python then
  exits with status 1), or not yet, when the passes given to the model are used up.
\<close>

datatype outcome = Exited nat | Uncaught exn | Running

datatype step = Continue | Break | Raise exn

text \<open>The scheduler calls the job and drops what it returns.\<close>

definition run_job :: "dict \<Rightarrow> job \<Rightarrow> world \<Rightarrow> (exn + unit) \<times> world" where
  "run_job cfg j w =
     (case j of
        ConnectJob \<Rightarrow>
          (case connect_stream cfg w of (Inl x, w') \<Rightarrow> (Inl x, w') | (Inr _, w') \<Rightarrow> (Inr (), w'))
      | DisconnectJob \<Rightarrow>
          (case disconnect_stream cfg w of (Inl x, w') \<Rightarrow> (Inl x, w') | (Inr _, w') \<Rightarrow> (Inr (), w'))
      | RefreshJob server_address username password \<Rightarrow>
          (case refresh_access_token server_address username password w of
             (Inl x, w') \<Rightarrow> (Inl x, w')
           | (Inr _, w') \<Rightarrow> (Inr (), w')))"

fun run_jobs :: "dict \<Rightarrow> job list \<Rightarrow> world \<Rightarrow> (exn + unit) \<times> world" where
  "run_jobs cfg [] w = (Inr (), w)"
| "run_jobs cfg (j # js) w =
     (case run_job cfg j w of
        (Inl x, w') \<Rightarrow> (Inl x, w')
      | (Inr _, w') \<Rightarrow> run_jobs cfg js w')"

definition run_pending :: "prog \<Rightarrow> nat list \<Rightarrow> world \<Rightarrow> (exn + unit) \<times> world" where
  "run_pending p ds w = run_jobs (config p) (map ((!) (jobs p)) (filter (\<lambda>i. i < length (jobs p)) ds)) w"

definition prompt :: string where
  "prompt = ''Enter 'c' to connect, 'd' to disconnect, or 'q' to quit: ''"

definition invalid_input :: string where
  "invalid_input = ''Invalid input. Please enter 'c', 'd', or 'q'.''"

text \<open>The body of \<^verbatim>\<open>while True\<close> (lines 186 to 199).\<close>

definition loop_body :: "prog \<Rightarrow> tick \<Rightarrow> world \<Rightarrow> step \<times> world" where
  "loop_body p t w =
     (case run_pending p (due t) w of
        (Inl x, w1) \<Rightarrow> (Raise x, w1)
      | (Inr _, w1) \<Rightarrow>
          (let w2 = emit (Sleep 1) w1;
               w3 = emit (Prompt prompt) w2
           in case typed t of
                None \<Rightarrow> (Raise EOFError, w3)
              | Some line \<Rightarrow>
                  (let user_input = lower line
                   in if user_input = ''c'' then
                        (case connect_stream (config p) w3 of
                           (Inl x, w4) \<Rightarrow> (Raise x, w4)
                         | (Inr _, w4) \<Rightarrow> (Continue, w4))
                      else if user_input = ''d'' then
                        (case disconnect_stream (config p) w3 of
                           (Inl x, w4) \<Rightarrow> (Raise x, w4)
                         | (Inr _, w4) \<Rightarrow> (Continue, w4))
                      else if user_input = ''q'' then (Break, print ''Exiting.'' w3)
                      else if user_input \<noteq> [] then (Continue, print invalid_input w3)
                      else (Continue, w3))))"

fun main_loop :: "prog \<Rightarrow> tick list \<Rightarrow> world \<Rightarrow> (outcome \<times> job list) \<times> world" where
  "main_loop p [] w = ((Running, jobs p), w)"
| "main_loop p (t # ts) w =
     (case loop_body p t w of
        (Continue, w') \<Rightarrow> main_loop p ts w'
      | (Break, w') \<Rightarrow> ((Exited 0, jobs p), w')
      | (Raise x, w') \<Rightarrow> ((Uncaught x, jobs p), w'))"

text \<open>
  Lines 161 to 183: the jobs registered so far, and the exception of \<^verbatim>\<open>.at(...)\<close> when
  the scheduler library refuses the time value.
\<close>

definition schedule_jobs ::
  "dict \<Rightarrow> json \<Rightarrow> json \<Rightarrow> json \<Rightarrow> world \<Rightarrow> (exn option \<times> job list) \<times> world" where
  "schedule_jobs cfg server_address username password w =
     (let connect_time = dict_get cfg ''connect_time'';
          disconnect_time = dict_get cfg ''disconnect_time''
      in if truthy connect_time \<and> \<not> at_ok w connect_time then ((Some ScheduleError, []), w)
         else
           (let js1 = (if truthy connect_time then [ConnectJob] else []);
                w1 = (if truthy connect_time
                      then print (''Scheduled stream connection for '' @ fstr w connect_time
                                  @ '' daily.'') w
                      else print ''Warning: 'connect_time' not found in config file.'' w)
            in if truthy disconnect_time \<and> \<not> at_ok w disconnect_time
               then ((Some ScheduleError, js1), w1)
               else
                 (let js2 = (if truthy disconnect_time then js1 @ [DisconnectJob] else js1);
                      w2 = (if truthy disconnect_time
                            then print (''Scheduled stream disconnection for ''
                                        @ fstr w disconnect_time @ '' daily.'') w1
                            else print ''Warning: 'disconnect_time' not found in config file.'' w1)
                  in ((None, js2 @ [RefreshJob server_address username password]),
                      print ''Scheduled token refresh every 10 minutes.'' w2))))"

definition main :: "tick list \<Rightarrow> world \<Rightarrow> (outcome \<times> job list) \<times> world" where
  "main ticks w =
     (case load_config w of
        (Inl x, w1) \<Rightarrow> ((Uncaught x, []), w1)
      | (Inr cfg, w1) \<Rightarrow>
          if truthy cfg then
            (case cfg of
               JObj d \<Rightarrow>
                 (let server_address = dict_get d ''server_address'';
                      username = dict_get d ''username'';
                      password = dict_get d ''password''
                  in if truthy server_address \<and> truthy username \<and> truthy password then
                       (case get_access_token server_address username password w1 of
                          (Inl x, w2) \<Rightarrow> ((Uncaught x, []), w2)
                        | (Inr None, w2) \<Rightarrow>
                            ((Exited 0, []),
                             print ''Error: Could not retrieve access token. Script will exit.'' w2)
                        | (Inr (Some access_token), w2) \<Rightarrow>
                            (let d' = AList.update ''authorization_token'' access_token d;
                                 w3 = print ''Successfully retrieved access token.'' w2
                             in case schedule_jobs d' server_address username password w3 of
                                  ((Some x, js), w4) \<Rightarrow> ((Uncaught x, js), w4)
                                | ((None, js), w4) \<Rightarrow>
                                    main_loop \<lparr>config = d', jobs = js\<rparr> ticks w4))
                     else
                       ((Exited 0, []),
                        print ''Error: Missing login credentials in config. Script will exit.'' w1))
             | _ \<Rightarrow> ((Uncaught AttributeError, []), w1))
          else ((Exited 0, []), w1))"

section \<open>Definitions that follow the specification's words\<close>

text \<open>
  The credential exchange of the specification: \<^verbatim>\<open>POST {server_address}/api/login\<close> with
  the body \<^verbatim>\<open>{username, password}\<close>.
\<close>

definition login_request :: "world \<Rightarrow> json \<Rightarrow> json \<Rightarrow> json \<Rightarrow> request" where
  "login_request w server_address username password =
     \<lparr>req_method = POST, req_url = fstr w server_address @ ''/api/login'', req_headers = [],
      req_json = JObj [(''username'', username), (''password'', password)]\<rparr>"

text \<open>
  The process identifier of the specification: \<^verbatim>\<open>restreamer-ui:ingest:\<close> with each colon
  percent-encoded, then the process id, then \<^verbatim>\<open>_snapshot\<close> for the snapshot variant.
\<close>

fun spec_encode_colons :: "string \<Rightarrow> string" where
  "spec_encode_colons [] = []"
| "spec_encode_colons (c # cs) =
     (if c = CHR '':'' then ''%3A'' @ spec_encode_colons cs else c # spec_encode_colons cs)"

definition spec_process_identifier :: "string \<Rightarrow> bool \<Rightarrow> string" where
  "spec_process_identifier process_id is_snapshot =
     spec_encode_colons ''restreamer-ui:ingest:'' @ process_id
     @ (if is_snapshot then ''_snapshot'' else [])"

text \<open>
  The command request of the specification, for a payload \<^verbatim>\<open>{"command": verb}\<close>.
\<close>

definition command_request :: "world \<Rightarrow> json \<Rightarrow> json \<Rightarrow> json \<Rightarrow> string \<Rightarrow> bool \<Rightarrow> request" where
  "command_request w server_address process_id token verb is_snapshot =
     \<lparr>req_method = PUT,
      req_url = fstr w server_address @ ''/api/v3/process/''
                @ spec_process_identifier (fstr w process_id) is_snapshot @ ''/command'',
      req_headers = [(''Content-Type'', ''application/json''),
                     (''Authorization'', ''Bearer '' @ fstr w token)],
      req_json = JObj [(''command'', JStr verb)]\<rparr>"

text \<open>The console reads and the sleeps of a trace, in order.\<close>

fun prompt_of :: "event \<Rightarrow> string option" where
  "prompt_of (Prompt s) = Some s"
| "prompt_of _ = None"

fun sleep_of :: "event \<Rightarrow> nat option" where
  "sleep_of (Sleep n) = Some n"
| "sleep_of _ = None"

definition prompts :: "world \<Rightarrow> string list" where
  "prompts w = List.map_filter prompt_of (trace w)"

definition sleeps :: "world \<Rightarrow> nat list" where
  "sleeps w = List.map_filter sleep_of (trace w)"

section \<open>Example runs\<close>

text \<open>
  Concrete environments for the instances below. The network answers the n-th call with
  the n-th reply of a list and refuses the connection afterwards. The examples pass
  strings only, so \<open>str_of\<close> is never consulted by them.
\<close>

definition ok_reply :: "json \<Rightarrow> reply" where
  "ok_reply v = Returned \<lparr>status_code = 200, http_error_text = [], content = Json v\<rparr>"

definition status_reply :: "nat \<Rightarrow> string \<Rightarrow> reply" where
  "status_reply n e = Returned \<lparr>status_code = n, http_error_text = e, content = Json (JObj [])\<rparr>"

definition scripted :: "reply list \<Rightarrow> request list \<Rightarrow> reply" where
  "scripted rs cs =
     (if 0 < length cs \<and> length cs \<le> length rs then rs ! (length cs - 1)
      else Raised ''connection refused'')"

definition example_world :: "file_read \<Rightarrow> reply list \<Rightarrow> world" where
  "example_world f rs =
     \<lparr>str_of = (\<lambda>v. ''<value>''), at_ok = (\<lambda>v. True), config_file = f, net = scripted rs,
      clock = (\<lambda>n. ''08:00:00''), trace = []\<rparr>"

definition example_prog :: prog where
  "example_prog =
     \<lparr>config = [(''server_address'', JStr ''http://h''), (''process_id'', JStr ''42''),
                (''authorization_token'', JStr ''abc'')],
      jobs = []\<rparr>"

definition example_config :: json where
  "example_config =
     JObj [(''server_address'', JStr ''http://h''), (''username'', JStr ''u''),
           (''password'', JStr ''p''), (''process_id'', JStr ''42'')]"

text \<open>
  A run in which the login at startup returns the token \<^verbatim>\<open>abc\<close> and the next login (the
  scheduled refresh) returns \<^verbatim>\<open>xyz\<close>; the configuration names no daily times, so the
  refresh job is the only registered job, at position 0.
\<close>

definition stale_world :: world where
  "stale_world = example_world (Contents example_config)
     [ok_reply (JObj [(''access_token'', JStr ''abc'')]),
      ok_reply (JObj [(''access_token'', JStr ''xyz'')]),
      ok_reply (JStr ''ok''), ok_reply (JStr ''ok'')]"

definition stale_prog :: prog where
  "stale_prog =
     \<lparr>config = [(''server_address'', JStr ''http://h''), (''username'', JStr ''u''),
                (''password'', JStr ''p''), (''process_id'', JStr ''42''),
                (''authorization_token'', JStr ''abc'')],
      jobs = [RefreshJob (JStr ''http://h'') (JStr ''u'') (JStr ''p'')]\<rparr>"

section \<open>Basic facts about the world\<close>

lemma calls_emit: "calls (emit e w) = calls w @ (case call_of e of None \<Rightarrow> [] | Some r \<Rightarrow> [r])"
  by (cases e) (simp_all add: calls_def emit_def map_filter_def)

lemma printed_emit:
  "printed (emit e w) = printed w @ (case line_of e of None \<Rightarrow> [] | Some s \<Rightarrow> [s])"
  by (cases e) (simp_all add: printed_def emit_def map_filter_def)

lemma world_emit [simp]:
  "str_of (emit e w) = str_of w" "net (emit e w) = net w" "at_ok (emit e w) = at_ok w"
  "clock (emit e w) = clock w" "config_file (emit e w) = config_file w"
  "trace (emit e w) = trace w @ [e]"
  by (simp_all add: emit_def)

lemma fstr_emit [simp]: "fstr (emit e w) = fstr w"
  by (simp add: fstr_def fun_eq_iff split: json.splits)

lemma calls_print [simp]: "calls (print s w) = calls w"
  by (simp add: print_def calls_emit)

lemma printed_print [simp]: "printed (print s w) = printed w @ [s]"
  by (simp add: print_def printed_emit)

lemma world_print [simp]:
  "str_of (print s w) = str_of w" "net (print s w) = net w" "at_ok (print s w) = at_ok w"
  "clock (print s w) = clock w" "config_file (print s w) = config_file w"
  "trace (print s w) = trace w @ [Print s]"
  by (simp_all add: print_def)

lemma fstr_print [simp]: "fstr (print s w) = fstr w"
  by (simp add: print_def)

lemma http_simps [simp]:
  "fst (http r w) = net w (calls w @ [r])"
  "calls (snd (http r w)) = calls w @ [r]"
  "printed (snd (http r w)) = printed w"
  "str_of (snd (http r w)) = str_of w" "net (snd (http r w)) = net w"
  "fstr (snd (http r w)) = fstr w"
  "trace (snd (http r w)) = trace w @ [Call r]"
  by (simp_all add: http_def calls_emit printed_emit)

lemma example_world_simps [simp]:
  "net (example_world f rs) = scripted rs" "trace (example_world f rs) = []"
  "config_file (example_world f rs) = f" "calls (example_world f rs) = []"
  "printed (example_world f rs) = []" "at_ok (example_world f rs) v = True"
  "str_of (example_world f rs) v = ''<value>''" "clock (example_world f rs) n = ''08:00:00''"
  by (simp_all add: example_world_def calls_def printed_def map_filter_def)

lemma fstr_JStr [simp]: "fstr w (JStr s) = s"
  by (simp add: fstr_def)

lemma scripted_first [simp]: "scripted (r # rs) [c] = r"
  by (simp add: scripted_def)

lemma get_access_token_call:
  "calls (snd (get_access_token a u p w)) = calls w @ [login_request w a u p]"
  by (simp add: get_access_token_def login_request_def Let_def http_def calls_emit
      split: prod.splits reply.splits option.splits body.splits sum.splits)

lemma get_access_token_unfold:
  "get_access_token a u p w =
     (let w1 = emit (Call (login_request w a u p)) w
      in case net w (calls w @ [login_request w a u p]) of
           Raised e \<Rightarrow> (Inr None, print (''Error during login: '' @ e) w1)
         | Returned r \<Rightarrow>
             (case raise_for_status r of
                Some e \<Rightarrow> (Inr None, print (''Error during login: '' @ e) w1)
              | None \<Rightarrow>
                  (case content r of
                     NotJson b e \<Rightarrow>
                       (Inr None, print (if b then ''Error during login: '' @ e
                                         else ''Error: Could not decode JSON response from login.'') w1)
                   | Json data \<Rightarrow>
                       (case py_get data ''access_token'' of
                          Inl x \<Rightarrow> (Inl x, w1)
                        | Inr t \<Rightarrow>
                            if truthy t then (Inr (Some t), w1)
                            else (Inr None,
                                  print ''Error: Access token not found in login response.'' w1)))))"
  by (simp add: get_access_token_def login_request_def Let_def http_def
      split: reply.splits option.splits body.splits sum.splits)

lemma printed_call [simp]: "printed (emit (Call r) w) = printed w"
  by (simp add: printed_emit)

lemma refresh_access_token_unfold:
  "refresh_access_token a u p w =
     (let w1 = emit (Call (login_request w a u p)) w
      in case net w (calls w @ [login_request w a u p]) of
           Raised e \<Rightarrow> (Inr None, print (''Error during token refresh: '' @ e) w1)
         | Returned r \<Rightarrow>
             (case raise_for_status r of
                Some e \<Rightarrow> (Inr None, print (''Error during token refresh: '' @ e) w1)
              | None \<Rightarrow>
                  (case content r of
                     NotJson b e \<Rightarrow>
                       (Inr None,
                        print (if b then ''Error during token refresh: '' @ e
                               else ''Error: Could not decode JSON response from token refresh.'') w1)
                   | Json data \<Rightarrow>
                       (case py_get data ''access_token'' of
                          Inl x \<Rightarrow> (Inl x, w1)
                        | Inr t \<Rightarrow>
                            if truthy t
                            then (Inr (Some t), print ''Successfully refreshed access token.'' w1)
                            else (Inr None,
                                  print ''Error: Access token not found in refresh response.'' w1)))))"
  by (simp add: refresh_access_token_def login_request_def Let_def http_def
      split: reply.splits option.splits body.splits sum.splits)

lemma send_restreamer_command_unfold:
  "send_restreamer_command a p t [(''command'', JStr verb)] snap w =
     (let w1 = emit (Call (command_request w a p t verb snap)) w;
          failed = (\<lambda>e. print (''Error sending command to process '' @ quote @ fstr w p @ quote
                                 @ '': '' @ e))
      in case net w (calls w @ [command_request w a p t verb snap]) of
           Raised e \<Rightarrow> (Inr JNull, failed e w1)
         | Returned r \<Rightarrow>
             (case raise_for_status r of
                Some e \<Rightarrow> (Inr JNull, failed e w1)
              | None \<Rightarrow>
                  (let w2 = print (capitalize verb @ '' command sent successfully to process ''
                                   @ quote @ fstr w p @ quote @ ''. Response:'') w1
                   in case content r of
                        NotJson b e \<Rightarrow>
                          (Inr JNull,
                           if b then failed e w2 else print ''Error decoding JSON response.'' w2)
                      | Json v \<Rightarrow> (Inr JNull, print (fstr w v) w2))))"
  by (simp add: send_restreamer_command_def command_request_def spec_process_identifier_def
        Let_def http_def dict_item_def
      split: reply.splits option.splits body.splits)

lemma calls_call [simp]: "calls (emit (Call r) w) = calls w @ [r]"
  by (simp add: calls_emit)

lemma send_restreamer_command_ok:
  "fst (send_restreamer_command a p t [(''command'', JStr verb)] snap w) = Inr JNull"
  "calls (snd (send_restreamer_command a p t [(''command'', JStr verb)] snap w))
     = calls w @ [command_request w a p t verb snap]"
  "fstr (snd (send_restreamer_command a p t [(''command'', JStr verb)] snap w)) = fstr w"
  "net (snd (send_restreamer_command a p t [(''command'', JStr verb)] snap w)) = net w"
  by (simp_all add: send_restreamer_command_unfold Let_def
      split: reply.splits option.splits body.splits)

lemma prompts_emit:
  "prompts (emit e w) = prompts w @ (case prompt_of e of None \<Rightarrow> [] | Some s \<Rightarrow> [s])"
  by (cases e) (simp_all add: prompts_def emit_def map_filter_def)

lemma sleeps_emit:
  "sleeps (emit e w) = sleeps w @ (case sleep_of e of None \<Rightarrow> [] | Some n \<Rightarrow> [n])"
  by (cases e) (simp_all add: sleeps_def emit_def map_filter_def)

lemma quiet_print [simp]: "prompts (print s w) = prompts w" "sleeps (print s w) = sleeps w"
  by (simp_all add: print_def prompts_emit sleeps_emit)

lemma quiet_call [simp]:
  "prompts (emit (Call r) w) = prompts w" "sleeps (emit (Call r) w) = sleeps w"
  by (simp_all add: prompts_emit sleeps_emit)

lemma send_restreamer_command_quiet [simp]:
  "prompts (snd (send_restreamer_command a p t [(''command'', JStr verb)] snap w)) = prompts w"
  "sleeps (snd (send_restreamer_command a p t [(''command'', JStr verb)] snap w)) = sleeps w"
  by (simp_all add: send_restreamer_command_unfold Let_def
      split: reply.splits option.splits body.splits)

lemma send_restreamer_command_pair:
  "send_restreamer_command a p t [(''command'', JStr verb)] snap w
     = (Inr JNull, snd (send_restreamer_command a p t [(''command'', JStr verb)] snap w))"
  by (simp add: prod_eq_iff send_restreamer_command_ok)

lemma stream_args_cases:
  "stream_args cfg = Inr (a, p, t) \<longleftrightarrow>
     map_of cfg ''server_address'' = Some a \<and> map_of cfg ''process_id'' = Some p \<and>
     map_of cfg ''authorization_token'' = Some t"
  by (auto simp add: stream_args_def dict_item_def split: option.splits)

lemma connect_stream_ok:
  assumes "stream_args cfg = Inr (a, p, t)"
  shows "connect_stream cfg w =
           (Inr JNull,
            print ''Stream connection initiated.''
              (snd (send_restreamer_command a p t [(''command'', JStr ''start'')] True
                 (snd (send_restreamer_command a p t [(''command'', JStr ''start'')] False
                    (print (''Connecting stream at '' @ strftime w) w))))))"
proof -
  define w1 where "w1 = print (''Connecting stream at '' @ strftime w) w"
  define w2 where "w2 = snd (send_restreamer_command a p t [(''command'', JStr ''start'')] False w1)"
  have first: "send_restreamer_command a p t [(''command'', JStr ''start'')] False w1 = (Inr JNull, w2)"
    unfolding w2_def by (rule send_restreamer_command_pair)
  define w3 where "w3 = snd (send_restreamer_command a p t [(''command'', JStr ''start'')] True w2)"
  have second: "send_restreamer_command a p t [(''command'', JStr ''start'')] True w2 = (Inr JNull, w3)"
    unfolding w3_def by (rule send_restreamer_command_pair)
  show ?thesis
    unfolding connect_stream_def Let_def w1_def [symmetric]
    by (simp add: assms first second)
qed

lemma connect_stream_raise:
  assumes "stream_args cfg = Inl x"
  shows "connect_stream cfg w = (Inl x, print (''Connecting stream at '' @ strftime w) w)"
  by (simp add: connect_stream_def assms)

lemma disconnect_stream_ok:
  assumes "stream_args cfg = Inr (a, p, t)"
  shows "disconnect_stream cfg w =
           (Inr JNull,
            print ''Stream disconnection initiated.''
              (snd (send_restreamer_command a p t [(''command'', JStr ''stop'')] False
                 (snd (send_restreamer_command a p t [(''command'', JStr ''stop'')] True
                    (print (''Disconnecting stream at '' @ strftime w) w))))))"
proof -
  define w1 where "w1 = print (''Disconnecting stream at '' @ strftime w) w"
  define w2 where "w2 = snd (send_restreamer_command a p t [(''command'', JStr ''stop'')] True w1)"
  have first: "send_restreamer_command a p t [(''command'', JStr ''stop'')] True w1 = (Inr JNull, w2)"
    unfolding w2_def by (rule send_restreamer_command_pair)
  define w3 where "w3 = snd (send_restreamer_command a p t [(''command'', JStr ''stop'')] False w2)"
  have second: "send_restreamer_command a p t [(''command'', JStr ''stop'')] False w2 = (Inr JNull, w3)"
    unfolding w3_def by (rule send_restreamer_command_pair)
  show ?thesis
    unfolding disconnect_stream_def Let_def w1_def [symmetric]
    by (simp add: assms first second)
qed

lemma disconnect_stream_raise:
  assumes "stream_args cfg = Inl x"
  shows "disconnect_stream cfg w = (Inl x, print (''Disconnecting stream at '' @ strftime w) w)"
  by (simp add: disconnect_stream_def assms)

lemma connect_stream_quiet [simp]:
  "prompts (snd (connect_stream cfg w)) = prompts w"
  "sleeps (snd (connect_stream cfg w)) = sleeps w"
proof -
  show "prompts (snd (connect_stream cfg w)) = prompts w"
  proof (cases "stream_args cfg")
    case (Inl x)
    then show ?thesis by (simp add: connect_stream_raise)
  next
    case (Inr apt)
    then show ?thesis by (cases apt) (simp add: connect_stream_ok)
  qed
  show "sleeps (snd (connect_stream cfg w)) = sleeps w"
  proof (cases "stream_args cfg")
    case (Inl x)
    then show ?thesis by (simp add: connect_stream_raise)
  next
    case (Inr apt)
    then show ?thesis by (cases apt) (simp add: connect_stream_ok)
  qed
qed

lemma disconnect_stream_quiet [simp]:
  "prompts (snd (disconnect_stream cfg w)) = prompts w"
  "sleeps (snd (disconnect_stream cfg w)) = sleeps w"
proof -
  show "prompts (snd (disconnect_stream cfg w)) = prompts w"
  proof (cases "stream_args cfg")
    case (Inl x)
    then show ?thesis by (simp add: disconnect_stream_raise)
  next
    case (Inr apt)
    then show ?thesis by (cases apt) (simp add: disconnect_stream_ok)
  qed
  show "sleeps (snd (disconnect_stream cfg w)) = sleeps w"
  proof (cases "stream_args cfg")
    case (Inl x)
    then show ?thesis by (simp add: disconnect_stream_raise)
  next
    case (Inr apt)
    then show ?thesis by (cases apt) (simp add: disconnect_stream_ok)
  qed
qed

lemma refresh_access_token_quiet [simp]:
  "prompts (snd (refresh_access_token a u p w)) = prompts w"
  "sleeps (snd (refresh_access_token a u p w)) = sleeps w"
  by (simp_all add: refresh_access_token_unfold Let_def
      split: reply.splits option.splits body.splits sum.splits)

lemma run_job_quiet [simp]:
  "prompts (snd (run_job cfg j w)) = prompts w" "sleeps (snd (run_job cfg j w)) = sleeps w"
proof -
  have c: "snd (case connect_stream cfg w of (Inl x, w') \<Rightarrow> (Inl x, w') | (Inr _, w') \<Rightarrow> (Inr (), w'))
             = snd (connect_stream cfg w)"
    by (simp split: prod.splits sum.splits)
  have d: "snd (case disconnect_stream cfg w of (Inl x, w') \<Rightarrow> (Inl x, w') | (Inr _, w') \<Rightarrow> (Inr (), w'))
             = snd (disconnect_stream cfg w)"
    by (simp split: prod.splits sum.splits)
  have r: "\<And>a u p. snd (case refresh_access_token a u p w of (Inl x, w') \<Rightarrow> (Inl x, w')
                              | (Inr _, w') \<Rightarrow> (Inr (), w'))
             = snd (refresh_access_token a u p w)"
    by (simp split: prod.splits sum.splits)
  show "prompts (snd (run_job cfg j w)) = prompts w"
    by (cases j) (simp_all add: run_job_def c d r)
  show "sleeps (snd (run_job cfg j w)) = sleeps w"
    by (cases j) (simp_all add: run_job_def c d r)
qed

lemma run_jobs_quiet [simp]:
  "prompts (snd (run_jobs cfg js w)) = prompts w" "sleeps (snd (run_jobs cfg js w)) = sleeps w"
proof (induction js arbitrary: w)
  case Nil
  { case 1 show ?case by simp }
  { case 2 show ?case by simp }
next
  case (Cons j js)
  { case 1
    show ?case
    proof (cases "run_job cfg j w")
      case (Pair r w')
      have "prompts w' = prompts w" using run_job_quiet(1) [of cfg j w] Pair by simp
      then show ?thesis using Pair Cons.IH(1) [of w'] by (cases r) simp_all
    qed }
  { case 2
    show ?case
    proof (cases "run_job cfg j w")
      case (Pair r w')
      have "sleeps w' = sleeps w" using run_job_quiet(2) [of cfg j w] Pair by simp
      then show ?thesis using Pair Cons.IH(2) [of w'] by (cases r) simp_all
    qed }
qed

lemma run_pending_quiet [simp]:
  "prompts (snd (run_pending p ds w)) = prompts w" "sleeps (snd (run_pending p ds w)) = sleeps w"
  by (simp_all add: run_pending_def)

lemma loop_body_break:
  "fst (loop_body p t w) = Break \<longleftrightarrow>
     fst (run_pending p (due t) w) = Inr () \<and> (\<exists>line. typed t = Some line \<and> lower line = ''q'')"
  by (cases "run_pending p (due t) w")
     (auto simp add: loop_body_def Let_def split: sum.splits option.splits prod.splits)

lemma main_loop_exited:
  "fst (fst (main_loop p ts w)) = Exited n \<Longrightarrow>
     n = 0 \<and> (\<exists>t \<in> set ts. \<exists>line. typed t = Some line \<and> lower line = ''q'')"
proof (induction ts arbitrary: w)
  case Nil
  then show ?case by simp
next
  case (Cons t ts)
  show ?case
  proof (cases "loop_body p t w")
    case (Pair s w')
    show ?thesis
    proof (cases s)
      case Continue
      with Pair Cons.prems have "fst (fst (main_loop p ts w')) = Exited n" by simp
      from Cons.IH [OF this] show ?thesis by auto
    next
      case Break
      with Pair have "fst (loop_body p t w) = Break" by simp
      then have "\<exists>line. typed t = Some line \<and> lower line = ''q''"
        by (simp add: loop_body_break)
      moreover from Break Pair Cons.prems have "n = 0" by simp
      ultimately show ?thesis by auto
    next
      case (Raise x)
      with Pair Cons.prems show ?thesis by simp
    qed
  qed
qed

lemma refresh_same_calls:
  "calls (snd (refresh_access_token a u p w)) = calls w @ [login_request w a u p]"
  by (simp add: refresh_access_token_unfold Let_def
      split: reply.splits option.splits body.splits sum.splits)

lemma load_config_simps:
  "config_file w = FileNotFound \<Longrightarrow>
     load_config w = (Inr JNull, print ''Error: Configuration file 'config.json' not found.'' w)"
  "config_file w = Undecodable \<Longrightarrow>
     load_config w
       = (Inr JNull,
          print ''Error: Could not decode JSON from 'config.json'. Please check the file format.'' w)"
  "config_file w = Contents v \<Longrightarrow> load_config w = (Inr v, w)"
  "config_file w = Unreadable \<Longrightarrow> load_config w = (Inl OSError, w)"
  by (simp_all add: load_config_def)

lemma get_access_token_quiet [simp]:
  "prompts (snd (get_access_token a u p w)) = prompts w"
  "sleeps (snd (get_access_token a u p w)) = sleeps w"
  by (simp_all add: get_access_token_unfold Let_def
      split: reply.splits option.splits body.splits sum.splits)

lemma connect_stream_sends:
  assumes "stream_args cfg = Inr (a, p, t)"
  shows "calls (snd (connect_stream cfg w))
           = calls w @ [command_request w a p t ''start'' False,
                        command_request w a p t ''start'' True]"
  by (simp add: connect_stream_ok [OF assms] send_restreamer_command_ok command_request_def)

lemma scripted_nth:
  "scripted rs cs = (if 0 < length cs \<and> length cs \<le> length rs then rs ! (length cs - 1)
                     else Raised ''connection refused'')"
  by (simp add: scripted_def)

section \<open>Auth client\<close>

text \<open>
  C2: the refresh operation is functionally identical to the login operation. For every
  server address, username and password and every answer of the server,
  \<open>refresh_access_token\<close> returns exactly what \<open>get_access_token\<close> returns (the same
  token, the same absence, the same exception), and both issue the same single login
  call; only the printed lines differ.
\<close>

theorem refresh_same_as_login:
  "fst (refresh_access_token a u p w) = fst (get_access_token a u p w) \<and>
   calls (snd (refresh_access_token a u p w)) = calls w @ [login_request w a u p] \<and>
   calls (snd (get_access_token a u p w)) = calls w @ [login_request w a u p]"
  by (simp add: refresh_access_token_def get_access_token_def login_request_def Let_def http_def calls_emit
      split: prod.splits reply.splits option.splits body.splits sum.splits)

text \<open>
  C6, as amended: for every credential exchange, when \<^verbatim>\<open>raise_for_status\<close> passes and the
  body is a JSON object that maps \<^verbatim>\<open>access_token\<close> to a non-empty string \<open>T\<close>,
  \<open>get_access_token\<close> returns exactly \<open>T\<close>; when the object lacks the field it returns
  absence and prints a line; a network failure, an error status and a body that is not
  JSON likewise give absence and one printed line, and no exception. (The empty string is
  treated as absence, see C10; a body that is JSON but not an object is left out.)
\<close>

theorem get_access_token_results:
  "(net w (calls w @ [login_request w a u p]) = Returned r \<and> raise_for_status r = None \<and>
    content r = Json (JObj d) \<and> map_of d ''access_token'' = Some (JStr T) \<and> T \<noteq> []
      \<longrightarrow> fst (get_access_token a u p w) = Inr (Some (JStr T))) \<and>
   (net w (calls w @ [login_request w a u p]) = Returned r \<and> raise_for_status r = None \<and>
    content r = Json (JObj d) \<and> map_of d ''access_token'' = None
      \<longrightarrow> fst (get_access_token a u p w) = Inr None \<and>
          printed (snd (get_access_token a u p w))
            = printed w @ [''Error: Access token not found in login response.'']) \<and>
   (net w (calls w @ [login_request w a u p]) = Raised e
      \<longrightarrow> fst (get_access_token a u p w) = Inr None \<and>
          printed (snd (get_access_token a u p w)) = printed w @ [''Error during login: '' @ e]) \<and>
   (net w (calls w @ [login_request w a u p]) = Returned r \<and> raise_for_status r = Some e
      \<longrightarrow> fst (get_access_token a u p w) = Inr None \<and>
          printed (snd (get_access_token a u p w)) = printed w @ [''Error during login: '' @ e]) \<and>
   (net w (calls w @ [login_request w a u p]) = Returned r \<and> raise_for_status r = None \<and>
    content r = NotJson b e
      \<longrightarrow> fst (get_access_token a u p w) = Inr None \<and>
          printed (snd (get_access_token a u p w))
            = printed w @ [if b then ''Error during login: '' @ e
                           else ''Error: Could not decode JSON response from login.''])"
  by (simp add: get_access_token_unfold Let_def py_get_def dict_get_def)

theorem get_access_token_results_witness:
  "raise_for_status \<lparr>status_code = 200, http_error_text = [],
                      content = Json (JObj [(''access_token'', JStr ''T'')])\<rparr> = None \<and>
   fst (get_access_token (JStr ''http://h'') (JStr ''u'') (JStr ''p'')
          (example_world FileNotFound [ok_reply (JObj [(''access_token'', JStr ''T'')])]))
     = Inr (Some (JStr ''T'')) \<and>
   fst (get_access_token (JStr ''http://h'') (JStr ''u'') (JStr ''p'')
          (example_world FileNotFound [Raised ''timed out'']))
     = Inr None"
  using get_access_token_results
          [where w = "example_world FileNotFound [ok_reply (JObj [(''access_token'', JStr ''T'')])]"
             and a = "JStr ''http://h''" and u = "JStr ''u''" and p = "JStr ''p''"
             and r = "\<lparr>status_code = 200, http_error_text = [],
                         content = Json (JObj [(''access_token'', JStr ''T'')])\<rparr>"
             and d = "[(''access_token'', JStr ''T'')]" and T = "''T''"]
        get_access_token_results
          [where w = "example_world FileNotFound [Raised ''timed out'']"
             and a = "JStr ''http://h''" and u = "JStr ''u''" and p = "JStr ''p''"
             and e = "''timed out''"]
  by (simp add: ok_reply_def raise_for_status_def)

theorem get_access_token_counterexample:
  "fst (get_access_token (JStr ''http://h'') (JStr ''u'') (JStr ''p'')
          (example_world FileNotFound [ok_reply (JObj [(''access_token'', JStr [])])]))
     = Inr None \<and>
   fst (get_access_token (JStr ''http://h'') (JStr ''u'') (JStr ''p'')
          (example_world FileNotFound [ok_reply (JArr [])]))
     = Inl AttributeError"
  by (simp add: get_access_token_unfold Let_def ok_reply_def raise_for_status_def py_get_def
      dict_get_def)

text \<open>
  C10, as amended: whenever \<open>get_access_token\<close> or \<open>refresh_access_token\<close> returns a
  token, that token is a truthy value, so never the empty string (it is whatever truthy
  value the body holds, a string or not); a response that passes \<^verbatim>\<open>raise_for_status\<close> and
  whose JSON object maps \<^verbatim>\<open>access_token\<close> to a falsy value, or lacks it, is the absence
  case: a line is printed and no token is returned.
\<close>

theorem token_is_truthy:
  "(fst (get_access_token a u p w) = Inr (Some t) \<longrightarrow> truthy t \<and> t \<noteq> JStr []) \<and>
   (fst (refresh_access_token a u p w) = Inr (Some t) \<longrightarrow> truthy t \<and> t \<noteq> JStr []) \<and>
   (net w (calls w @ [login_request w a u p]) = Returned r \<and> raise_for_status r = None \<and>
    content r = Json (JObj d) \<and> \<not> truthy (dict_get d ''access_token'')
      \<longrightarrow> fst (get_access_token a u p w) = Inr None \<and>
          printed (snd (get_access_token a u p w))
            = printed w @ [''Error: Access token not found in login response.''] \<and>
          fst (refresh_access_token a u p w) = Inr None \<and>
          printed (snd (refresh_access_token a u p w))
            = printed w @ [''Error: Access token not found in refresh response.''])"
  by (auto simp add: get_access_token_unfold refresh_access_token_unfold Let_def py_get_def
      split: reply.splits option.splits body.splits sum.splits json.splits if_splits)

theorem token_is_truthy_witness:
  "fst (get_access_token (JStr ''http://h'') (JStr ''u'') (JStr ''p'')
          (example_world FileNotFound [ok_reply (JObj [(''access_token'', JStr ''abc'')])]))
     = Inr (Some (JStr ''abc'')) \<and> truthy (JStr ''abc'') \<and>
   \<not> truthy (dict_get [(''access_token'', JNull)] ''access_token'') \<and>
   fst (refresh_access_token (JStr ''http://h'') (JStr ''u'') (JStr ''p'')
          (example_world FileNotFound [ok_reply (JObj [(''access_token'', JNull)])]))
     = Inr None"
  using token_is_truthy
          [where w = "example_world FileNotFound [ok_reply (JObj [(''access_token'', JStr ''abc'')])]"
             and a = "JStr ''http://h''" and u = "JStr ''u''" and p = "JStr ''p''"
             and t = "JStr ''abc''"]
        token_is_truthy
          [where w = "example_world FileNotFound [ok_reply (JObj [(''access_token'', JNull)])]"
             and a = "JStr ''http://h''" and u = "JStr ''u''" and p = "JStr ''p''"
             and r = "\<lparr>status_code = 200, http_error_text = [],
                         content = Json (JObj [(''access_token'', JNull)])\<rparr>"
             and d = "[(''access_token'', JNull)]"]
  by (simp add: get_access_token_unfold Let_def ok_reply_def raise_for_status_def py_get_def
      dict_get_def)

theorem token_not_a_string_counterexample:
  "fst (get_access_token (JStr ''http://h'') (JStr ''u'') (JStr ''p'')
          (example_world FileNotFound [ok_reply (JObj [(''access_token'', JInt 1)])]))
     = Inr (Some (JInt 1))"
  by (simp add: get_access_token_unfold Let_def ok_reply_def raise_for_status_def py_get_def
      dict_get_def)

section \<open>Command dispatcher\<close>

text \<open>
  C8: for every server address, process id, token and command verb, the dispatcher
  issues one \<^verbatim>\<open>PUT\<close> to \<^verbatim>\<open>{server_address}/api/v3/process/{encoded_process_id}/command\<close>
  with the header \<^verbatim>\<open>Authorization: Bearer {token}\<close> and the body \<^verbatim>\<open>{"command": verb}\<close>; the
  encoded process identifier is \<^verbatim>\<open>restreamer-ui%3Aingest%3A{process_id}\<close>, with \<^verbatim>\<open>_snapshot\<close>
  appended exactly when the snapshot variant is addressed. The first equation holds for
  arguments of any kind (each is formatted as an f-string field, and the body is the
  payload as passed); the second is its reading for strings.
\<close>

theorem send_restreamer_command_call:
  "calls (snd (send_restreamer_command server_address process_id token payload is_snapshot w))
     = calls w @ [\<lparr>req_method = PUT,
                    req_url = fstr w server_address @ ''/api/v3/process/''
                              @ spec_process_identifier (fstr w process_id) is_snapshot
                              @ ''/command'',
                    req_headers = [(''Content-Type'', ''application/json''),
                                   (''Authorization'', ''Bearer '' @ fstr w token)],
                    req_json = JObj payload\<rparr>] \<and>
   calls (snd (send_restreamer_command (JStr server) (JStr pid) (JStr tok)
                 [(''command'', JStr verb)] snap w))
     = calls w @ [\<lparr>req_method = PUT,
                    req_url = server @ ''/api/v3/process/'' @ spec_process_identifier pid snap
                              @ ''/command'',
                    req_headers = [(''Content-Type'', ''application/json''),
                                   (''Authorization'', ''Bearer '' @ tok)],
                    req_json = JObj [(''command'', JStr verb)]\<rparr>]"
proof -
  have general: "calls (snd (send_restreamer_command a p t pl s w))
     = calls w @ [\<lparr>req_method = PUT,
                    req_url = fstr w a @ ''/api/v3/process/''
                              @ spec_process_identifier (fstr w p) s @ ''/command'',
                    req_headers = [(''Content-Type'', ''application/json''),
                                   (''Authorization'', ''Bearer '' @ fstr w t)],
                    req_json = JObj pl\<rparr>]" for a p t pl s
    by (simp add: send_restreamer_command_def spec_process_identifier_def Let_def http_def
          calls_emit
        split: reply.splits option.splits body.splits sum.splits json.splits)
  show ?thesis
    using general [of "JStr server" "JStr pid" "JStr tok" "[(''command'', JStr verb)]" snap]
    by (simp add: general)
qed

text \<open>
  C7, as amended: for every dispatcher invocation with a payload \<^verbatim>\<open>{"command": verb}\<close>
  against an endpoint that answers with a status from 400 to 599 (for example 500),
  \<open>send_restreamer_command\<close> catches the error, prints it, and returns \<^verbatim>\<open>None\<close>, the value
  it returns on success as well, without raising; the same holds for network errors and
  for bodies that are not JSON. The outcome shows in the printed lines only.
\<close>

theorem send_restreamer_command_failure:
  "fst (send_restreamer_command a p t [(''command'', JStr verb)] snap w) = Inr JNull \<and>
   (net w (calls w @ [command_request w a p t verb snap]) = Raised e \<or>
    net w (calls w @ [command_request w a p t verb snap]) = Returned r \<and>
    400 \<le> status_code r \<and> status_code r < 600 \<and> http_error_text r = e
      \<longrightarrow> printed (snd (send_restreamer_command a p t [(''command'', JStr verb)] snap w))
            = printed w @ [''Error sending command to process '' @ quote @ fstr w p @ quote
                           @ '': '' @ e]) \<and>
   (net w (calls w @ [command_request w a p t verb snap]) = Returned r \<and>
    \<not> (400 \<le> status_code r \<and> status_code r < 600) \<and> content r = NotJson b e
      \<longrightarrow> printed (snd (send_restreamer_command a p t [(''command'', JStr verb)] snap w))
            = printed w @ [capitalize verb @ '' command sent successfully to process ''
                             @ quote @ fstr w p @ quote @ ''. Response:'',
                           if b then ''Error sending command to process '' @ quote @ fstr w p
                                     @ quote @ '': '' @ e
                           else ''Error decoding JSON response.''])"
proof (intro conjI impI)
  show "fst (send_restreamer_command a p t [(''command'', JStr verb)] snap w) = Inr JNull"
    by (rule send_restreamer_command_ok)
next
  assume "net w (calls w @ [command_request w a p t verb snap]) = Raised e \<or>
    net w (calls w @ [command_request w a p t verb snap]) = Returned r \<and>
    400 \<le> status_code r \<and> status_code r < 600 \<and> http_error_text r = e"
  then show "printed (snd (send_restreamer_command a p t [(''command'', JStr verb)] snap w))
            = printed w @ [''Error sending command to process '' @ quote @ fstr w p @ quote
                           @ '': '' @ e]"
    by (auto simp add: send_restreamer_command_unfold Let_def raise_for_status_def)
next
  assume "net w (calls w @ [command_request w a p t verb snap]) = Returned r \<and>
    \<not> (400 \<le> status_code r \<and> status_code r < 600) \<and> content r = NotJson b e"
  then show "printed (snd (send_restreamer_command a p t [(''command'', JStr verb)] snap w))
            = printed w @ [capitalize verb @ '' command sent successfully to process ''
                             @ quote @ fstr w p @ quote @ ''. Response:'',
                           if b then ''Error sending command to process '' @ quote @ fstr w p
                                     @ quote @ '': '' @ e
                           else ''Error decoding JSON response.'']"
    by (auto simp add: send_restreamer_command_unfold Let_def raise_for_status_def)
qed

theorem send_restreamer_command_failure_witness:
  "400 \<le> status_code \<lparr>status_code = 500, http_error_text = ''500 Server Error'',
                         content = Json (JObj [])\<rparr> \<and>
   printed (snd (send_restreamer_command (JStr ''http://h'') (JStr ''42'') (JStr ''abc'')
                   [(''command'', JStr ''start'')] False
                   (example_world FileNotFound [status_reply 500 ''500 Server Error''])))
     = [''Error sending command to process '' @ quote @ ''42'' @ quote @ '': 500 Server Error'']"
  using send_restreamer_command_failure
          [where w = "example_world FileNotFound [status_reply 500 ''500 Server Error'']"
             and a = "JStr ''http://h''" and p = "JStr ''42''" and t = "JStr ''abc''"
             and verb = "''start''" and snap = False and e = "''500 Server Error''"
             and r = "\<lparr>status_code = 500, http_error_text = ''500 Server Error'',
                         content = Json (JObj [])\<rparr>"]
  by (simp add: status_reply_def)

theorem send_restreamer_command_counterexample:
  "fst (send_restreamer_command (JStr ''http://h'') (JStr ''42'') (JStr ''abc'')
          [(''command'', JStr ''start'')] False
          (example_world FileNotFound [status_reply 500 ''500 Server Error'']))
     = fst (send_restreamer_command (JStr ''http://h'') (JStr ''42'') (JStr ''abc'')
              [(''command'', JStr ''start'')] False
              (example_world FileNotFound [ok_reply (JStr ''ok'')])) \<and>
   printed (snd (send_restreamer_command (JStr ''http://h'') (JStr ''42'') (JStr ''abc'')
                   [(''command'', JStr ''start'')] False
                   (example_world FileNotFound
                      [Returned \<lparr>status_code = 304, http_error_text = [],
                                  content = Json (JStr ''unchanged'')\<rparr>])))
     = [''Start command sent successfully to process '' @ quote @ ''42'' @ quote
        @ ''. Response:'', ''unchanged'']"
  by (simp add: send_restreamer_command_unfold Let_def raise_for_status_def status_reply_def
      ok_reply_def capitalize_def upper_char_def lower_char_def)

text \<open>
  C4, as amended: for every configuration that holds \<^verbatim>\<open>server_address\<close>, \<^verbatim>\<open>process_id\<close>
  and \<^verbatim>\<open>authorization_token\<close>, one invocation of \<open>connect_stream\<close> issues exactly two
  outbound command calls, in this order: a \<^verbatim>\<open>start\<close> command to the primary process
  identifier, then a \<^verbatim>\<open>start\<close> command to the snapshot variant; this holds whatever the
  network answers, so a failure of the first call does not prevent the second.
\<close>

theorem connect_stream_calls:
  assumes "map_of cfg ''server_address'' = Some a"
    and "map_of cfg ''process_id'' = Some p"
    and "map_of cfg ''authorization_token'' = Some t"
  shows "fst (connect_stream cfg w) = Inr JNull \<and>
         calls (snd (connect_stream cfg w))
           = calls w @ [command_request w a p t ''start'' False,
                        command_request w a p t ''start'' True]"
proof -
  have args: "stream_args cfg = Inr (a, p, t)"
    using assms by (simp add: stream_args_def dict_item_def)
  define w1 where "w1 = print (''Connecting stream at '' @ strftime w) w"
  define w2 where "w2 = snd (send_restreamer_command a p t [(''command'', JStr ''start'')] False w1)"
  define w3 where "w3 = snd (send_restreamer_command a p t [(''command'', JStr ''start'')] True w2)"
  have first: "send_restreamer_command a p t [(''command'', JStr ''start'')] False w1 = (Inr JNull, w2)"
    by (simp add: w2_def prod_eq_iff send_restreamer_command_ok)
  have second: "send_restreamer_command a p t [(''command'', JStr ''start'')] True w2 = (Inr JNull, w3)"
    by (simp add: w3_def prod_eq_iff send_restreamer_command_ok)
  have run: "connect_stream cfg w = (Inr JNull, print ''Stream connection initiated.'' w3)"
    unfolding connect_stream_def Let_def w1_def [symmetric] by (simp add: args first second)
  have "calls w3 = calls w @ [command_request w a p t ''start'' False,
                              command_request w a p t ''start'' True]"
    by (simp add: w3_def w2_def w1_def send_restreamer_command_ok command_request_def)
  with run show ?thesis by simp
qed

theorem connect_stream_calls_witness:
  "map_of [(''server_address'', JStr ''http://h''), (''process_id'', JStr ''42''),
           (''authorization_token'', JStr ''abc'')] ''process_id'' = Some (JStr ''42'') \<and>
   calls (snd (connect_stream [(''server_address'', JStr ''http://h''), (''process_id'', JStr ''42''),
                               (''authorization_token'', JStr ''abc'')]
                 (example_world FileNotFound [status_reply 500 ''500 Server Error''])))
     = [\<lparr>req_method = PUT,
         req_url = ''http://h/api/v3/process/restreamer-ui%3Aingest%3A42/command'',
         req_headers = [(''Content-Type'', ''application/json''),
                        (''Authorization'', ''Bearer abc'')],
         req_json = JObj [(''command'', JStr ''start'')]\<rparr>,
        \<lparr>req_method = PUT,
         req_url = ''http://h/api/v3/process/restreamer-ui%3Aingest%3A42_snapshot/command'',
         req_headers = [(''Content-Type'', ''application/json''),
                        (''Authorization'', ''Bearer abc'')],
         req_json = JObj [(''command'', JStr ''start'')]\<rparr>]"
  using connect_stream_calls
          [where cfg = "[(''server_address'', JStr ''http://h''), (''process_id'', JStr ''42''),
                         (''authorization_token'', JStr ''abc'')]"
             and a = "JStr ''http://h''" and p = "JStr ''42''" and t = "JStr ''abc''"
             and w = "example_world FileNotFound [status_reply 500 ''500 Server Error'']"]
  by (simp add: command_request_def spec_process_identifier_def)

theorem connect_stream_counterexample:
  "fst (connect_stream [(''server_address'', JStr ''http://h''),
                        (''authorization_token'', JStr ''abc'')]
          (example_world FileNotFound [])) = Inl (KeyError ''process_id'') \<and>
   calls (snd (connect_stream [(''server_address'', JStr ''http://h''),
                               (''authorization_token'', JStr ''abc'')]
                 (example_world FileNotFound []))) = []"
  by (simp add: connect_stream_def stream_args_def dict_item_def)

text \<open>
  C5, as amended: for every configuration that holds \<^verbatim>\<open>server_address\<close>, \<^verbatim>\<open>process_id\<close>
  and \<^verbatim>\<open>authorization_token\<close>, one invocation of \<open>disconnect_stream\<close> issues exactly two
  outbound command calls, in this order: a \<^verbatim>\<open>stop\<close> command to the snapshot variant, then
  a \<^verbatim>\<open>stop\<close> command to the primary process identifier; this holds whatever the network
  answers, so a failure of the first call does not prevent the second.
\<close>

theorem disconnect_stream_calls:
  assumes "map_of cfg ''server_address'' = Some a"
    and "map_of cfg ''process_id'' = Some p"
    and "map_of cfg ''authorization_token'' = Some t"
  shows "fst (disconnect_stream cfg w) = Inr JNull \<and>
         calls (snd (disconnect_stream cfg w))
           = calls w @ [command_request w a p t ''stop'' True,
                        command_request w a p t ''stop'' False]"
proof -
  have args: "stream_args cfg = Inr (a, p, t)"
    using assms by (simp add: stream_args_def dict_item_def)
  define w1 where "w1 = print (''Disconnecting stream at '' @ strftime w) w"
  define w2 where "w2 = snd (send_restreamer_command a p t [(''command'', JStr ''stop'')] True w1)"
  define w3 where "w3 = snd (send_restreamer_command a p t [(''command'', JStr ''stop'')] False w2)"
  have first: "send_restreamer_command a p t [(''command'', JStr ''stop'')] True w1 = (Inr JNull, w2)"
    by (simp add: w2_def prod_eq_iff send_restreamer_command_ok)
  have second: "send_restreamer_command a p t [(''command'', JStr ''stop'')] False w2 = (Inr JNull, w3)"
    by (simp add: w3_def prod_eq_iff send_restreamer_command_ok)
  have run: "disconnect_stream cfg w = (Inr JNull, print ''Stream disconnection initiated.'' w3)"
    unfolding disconnect_stream_def Let_def w1_def [symmetric] by (simp add: args first second)
  have "calls w3 = calls w @ [command_request w a p t ''stop'' True,
                              command_request w a p t ''stop'' False]"
    by (simp add: w3_def w2_def w1_def send_restreamer_command_ok command_request_def)
  with run show ?thesis by simp
qed

theorem disconnect_stream_calls_witness:
  "map_of [(''server_address'', JStr ''http://h''), (''process_id'', JStr ''42''),
           (''authorization_token'', JStr ''abc'')] ''process_id'' = Some (JStr ''42'') \<and>
   map (\<lambda>r. (req_url r, req_json r))
     (calls (snd (disconnect_stream [(''server_address'', JStr ''http://h''),
                                     (''process_id'', JStr ''42''),
                                     (''authorization_token'', JStr ''abc'')]
                    (example_world FileNotFound [Raised ''timed out'']))))
     = [(''http://h/api/v3/process/restreamer-ui%3Aingest%3A42_snapshot/command'',
         JObj [(''command'', JStr ''stop'')]),
        (''http://h/api/v3/process/restreamer-ui%3Aingest%3A42/command'',
         JObj [(''command'', JStr ''stop'')])]"
  using disconnect_stream_calls
          [where cfg = "[(''server_address'', JStr ''http://h''), (''process_id'', JStr ''42''),
                         (''authorization_token'', JStr ''abc'')]"
             and a = "JStr ''http://h''" and p = "JStr ''42''" and t = "JStr ''abc''"
             and w = "example_world FileNotFound [Raised ''timed out'']"]
  by (simp add: command_request_def spec_process_identifier_def)

theorem disconnect_stream_counterexample:
  "fst (disconnect_stream [(''server_address'', JStr ''http://h''),
                           (''authorization_token'', JStr ''abc'')]
          (example_world FileNotFound [])) = Inl (KeyError ''process_id'') \<and>
   calls (snd (disconnect_stream [(''server_address'', JStr ''http://h''),
                                  (''authorization_token'', JStr ''abc'')]
                 (example_world FileNotFound []))) = []"
  by (simp add: disconnect_stream_def stream_args_def dict_item_def)

section \<open>Scheduler loop and entry point\<close>

text \<open>
  C9, as amended: in every pass of the main loop in which the due jobs return and the
  console delivers a line, the program first runs the due scheduled jobs, then sleeps 1
  second, then performs a single read of a console command. A line that lower-cases to
  \<^verbatim>\<open>c\<close> invokes \<open>connect_stream\<close> at once, one that lower-cases to \<^verbatim>\<open>d\<close> invokes
  \<open>disconnect_stream\<close> at once, one that lower-cases to \<^verbatim>\<open>q\<close> ends the loop; any other
  non-empty line prints the error message, the empty line prints nothing, and in both
  cases the next pass follows and prompts again. The loop ends with an exit status only
  on the quit command (an uncaught exception, such as end of file on the console, ends
  the process without it).
\<close>

theorem loop_body_pass:
  assumes "run_pending p (due t) w = (Inr (), w1)" and "typed t = Some line"
  shows "prompts (snd (loop_body p t w)) = prompts w @ [prompt] \<and>
         sleeps (snd (loop_body p t w)) = sleeps w @ [1] \<and>
         (lower line = ''c'' \<longrightarrow>
            snd (loop_body p t w)
              = snd (connect_stream (config p) (emit (Prompt prompt) (emit (Sleep 1) w1))) \<and>
            fst (loop_body p t w) \<noteq> Break) \<and>
         (lower line = ''d'' \<longrightarrow>
            snd (loop_body p t w)
              = snd (disconnect_stream (config p) (emit (Prompt prompt) (emit (Sleep 1) w1))) \<and>
            fst (loop_body p t w) \<noteq> Break) \<and>
         (lower line = ''q'' \<longrightarrow>
            fst (loop_body p t w) = Break \<and>
            trace (snd (loop_body p t w))
              = trace w1 @ [Sleep 1, Prompt prompt, Print ''Exiting.'']) \<and>
         (lower line \<noteq> ''c'' \<and> lower line \<noteq> ''d'' \<and> lower line \<noteq> ''q'' \<and> line \<noteq> [] \<longrightarrow>
            fst (loop_body p t w) = Continue \<and>
            trace (snd (loop_body p t w))
              = trace w1 @ [Sleep 1, Prompt prompt, Print invalid_input]) \<and>
         (line = [] \<longrightarrow>
            fst (loop_body p t w) = Continue \<and>
            trace (snd (loop_body p t w)) = trace w1 @ [Sleep 1, Prompt prompt]) \<and>
         (fst (loop_body p t w) = Continue \<longrightarrow>
            main_loop p (t # ts) w = main_loop p ts (snd (loop_body p t w))) \<and>
         (\<forall>n. fst (fst (main_loop p ts w)) = Exited n \<longrightarrow>
            n = 0 \<and> (\<exists>t' \<in> set ts. \<exists>l. typed t' = Some l \<and> lower l = ''q''))"
proof -
  have w1: "prompts w1 = prompts w" "sleeps w1 = sleeps w"
    using run_pending_quiet [of p "due t" w] assms(1) by simp_all
  have snd_case: "\<And>r. snd (case r of (Inl x, w4) \<Rightarrow> (Raise x, w4) | (Inr _, w4) \<Rightarrow> (Continue, w4))
                      = snd (r :: (exn + json) \<times> world)"
    by (simp split: prod.splits sum.splits)
  have fst_case: "\<And>r. fst (case r of (Inl x, w4) \<Rightarrow> (Raise x, w4) | (Inr _, w4) \<Rightarrow> (Continue, w4))
                      \<noteq> Break"
    by (simp split: prod.splits sum.splits)
  have p1: "prompts (snd (loop_body p t w)) = prompts w @ [prompt]"
    by (simp add: loop_body_def assms Let_def snd_case prompts_emit w1)
  have p2: "sleeps (snd (loop_body p t w)) = sleeps w @ [1]"
    by (simp add: loop_body_def assms Let_def snd_case sleeps_emit w1)
  have p3: "lower line = ''c'' \<longrightarrow>
            snd (loop_body p t w)
              = snd (connect_stream (config p) (emit (Prompt prompt) (emit (Sleep 1) w1))) \<and>
            fst (loop_body p t w) \<noteq> Break"
    by (simp add: loop_body_def assms Let_def snd_case fst_case)
  have p4: "lower line = ''d'' \<longrightarrow>
            snd (loop_body p t w)
              = snd (disconnect_stream (config p) (emit (Prompt prompt) (emit (Sleep 1) w1))) \<and>
            fst (loop_body p t w) \<noteq> Break"
    by (simp add: loop_body_def assms Let_def snd_case fst_case)
  have p5: "lower line = ''q'' \<longrightarrow>
            fst (loop_body p t w) = Break \<and>
            trace (snd (loop_body p t w))
              = trace w1 @ [Sleep 1, Prompt prompt, Print ''Exiting.'']"
    by (simp add: loop_body_def assms Let_def)
  have p6: "lower line \<noteq> ''c'' \<and> lower line \<noteq> ''d'' \<and> lower line \<noteq> ''q'' \<and> line \<noteq> [] \<longrightarrow>
            fst (loop_body p t w) = Continue \<and>
            trace (snd (loop_body p t w))
              = trace w1 @ [Sleep 1, Prompt prompt, Print invalid_input]"
    by (simp add: loop_body_def assms Let_def lower_def)
  have p7: "line = [] \<longrightarrow>
            fst (loop_body p t w) = Continue \<and>
            trace (snd (loop_body p t w)) = trace w1 @ [Sleep 1, Prompt prompt]"
    by (simp add: loop_body_def assms Let_def lower_def)
  have p8: "fst (loop_body p t w) = Continue \<longrightarrow>
            main_loop p (t # ts) w = main_loop p ts (snd (loop_body p t w))"
    by (cases "loop_body p t w") simp
  have p9: "\<forall>n. fst (fst (main_loop p ts w)) = Exited n \<longrightarrow>
            n = 0 \<and> (\<exists>t' \<in> set ts. \<exists>l. typed t' = Some l \<and> lower l = ''q'')"
    using main_loop_exited by blast
  from p1 p2 p3 p4 p5 p6 p7 p8 p9 show ?thesis by blast
qed

theorem loop_body_pass_witness:
  "run_pending example_prog [] (example_world FileNotFound [])
     = (Inr (), example_world FileNotFound []) \<and>
   fst (loop_body example_prog \<lparr>due = [], typed = Some ''x''\<rparr> (example_world FileNotFound []))
     = Continue \<and>
   trace (snd (loop_body example_prog \<lparr>due = [], typed = Some ''x''\<rparr>
                 (example_world FileNotFound [])))
     = [Sleep 1, Prompt prompt, Print invalid_input] \<and>
   fst (fst (main_loop example_prog [\<lparr>due = [], typed = Some ''Q''\<rparr>]
               (example_world FileNotFound []))) = Exited 0"
proof -
  have run: "run_pending example_prog [] (example_world FileNotFound [])
               = (Inr (), example_world FileNotFound [])"
    by (simp add: run_pending_def)
  have x: "lower ''x'' \<noteq> ''c'' \<and> lower ''x'' \<noteq> ''d'' \<and> lower ''x'' \<noteq> ''q'' \<and> ''x'' \<noteq> []"
    by (simp add: lower_def lower_char_def)
  have q: "lower ''Q'' = ''q''"
    by (simp add: lower_def lower_char_def)
  have pass: "fst (loop_body example_prog \<lparr>due = [], typed = Some ''x''\<rparr>
                     (example_world FileNotFound [])) = Continue \<and>
              trace (snd (loop_body example_prog \<lparr>due = [], typed = Some ''x''\<rparr>
                     (example_world FileNotFound [])))
                = [Sleep 1, Prompt prompt, Print invalid_input]"
    using loop_body_pass [where p = example_prog and t = "\<lparr>due = [], typed = Some ''x''\<rparr>"
                            and w = "example_world FileNotFound []"
                            and ?w1.0 = "example_world FileNotFound []" and line = "''x''"
                            and ts = "[]"] run x
    by simp
  have quit: "fst (loop_body example_prog \<lparr>due = [], typed = Some ''Q''\<rparr>
                     (example_world FileNotFound [])) = Break"
    using loop_body_pass [where p = example_prog and t = "\<lparr>due = [], typed = Some ''Q''\<rparr>"
                            and w = "example_world FileNotFound []"
                            and ?w1.0 = "example_world FileNotFound []" and line = "''Q''"
                            and ts = "[]"] run q
    by simp
  have "fst (fst (main_loop example_prog [\<lparr>due = [], typed = Some ''Q''\<rparr>]
               (example_world FileNotFound []))) = Exited 0"
    using quit
    by (cases "loop_body example_prog \<lparr>due = [], typed = Some ''Q''\<rparr>
                 (example_world FileNotFound [])") simp
  with run pass show ?thesis by simp
qed

theorem loop_body_counterexample:
  "fst (loop_body example_prog \<lparr>due = [], typed = Some []\<rparr> (example_world FileNotFound []))
     = Continue \<and>
   printed (snd (loop_body example_prog \<lparr>due = [], typed = Some []\<rparr>
                   (example_world FileNotFound []))) = [] \<and>
   fst (fst (main_loop example_prog [\<lparr>due = [], typed = None\<rparr>]
               (example_world FileNotFound []))) = Uncaught EOFError \<and>
   map req_url (calls (snd (loop_body example_prog \<lparr>due = [], typed = Some ''C''\<rparr>
                              (example_world FileNotFound []))))
     = [''http://h/api/v3/process/restreamer-ui%3Aingest%3A42/command'',
        ''http://h/api/v3/process/restreamer-ui%3Aingest%3A42_snapshot/command'']"
proof -
  have run: "run_pending example_prog [] (example_world FileNotFound [])
               = (Inr (), example_world FileNotFound [])"
    by (simp add: run_pending_def)
  have args: "stream_args (config example_prog) = Inr (JStr ''http://h'', JStr ''42'', JStr ''abc'')"
    by (simp add: stream_args_def dict_item_def example_prog_def)
  have empty: "loop_body example_prog \<lparr>due = [], typed = Some []\<rparr> (example_world FileNotFound [])
                 = (Continue, emit (Prompt prompt) (emit (Sleep 1) (example_world FileNotFound [])))"
    by (simp add: loop_body_def run Let_def lower_def)
  have eof: "loop_body example_prog \<lparr>due = [], typed = None\<rparr> (example_world FileNotFound [])
               = (Raise EOFError, emit (Prompt prompt) (emit (Sleep 1) (example_world FileNotFound [])))"
    by (simp add: loop_body_def run Let_def)
  have upper: "calls (snd (loop_body example_prog \<lparr>due = [], typed = Some ''C''\<rparr>
                             (example_world FileNotFound [])))
                 = [command_request (example_world FileNotFound []) (JStr ''http://h'') (JStr ''42'')
                      (JStr ''abc'') ''start'' False,
                    command_request (example_world FileNotFound []) (JStr ''http://h'') (JStr ''42'')
                      (JStr ''abc'') ''start'' True]"
    by (simp add: loop_body_def run Let_def lower_def lower_char_def connect_stream_ok [OF args]
          send_restreamer_command_ok calls_emit command_request_def)
  show ?thesis
    by (simp add: empty eof upper printed_emit command_request_def spec_process_identifier_def)
qed

text \<open>
  C3, as amended: whenever the configuration file is absent, a required credential field
  (server address, username or password) is missing or falsy, or the initial login
  returns no token, the process exits before any job is scheduled and before the loop
  starts, and in each of these cases the exit status is 0; whenever the operator enters
  \<^verbatim>\<open>q\<close> (in either case) at the prompt, the process exits with exit status 0.
\<close>

theorem main_early_exit:
  "(config_file w = FileNotFound \<longrightarrow>
      fst (main ticks w) = (Exited 0, []) \<and>
      trace (snd (main ticks w))
        = trace w @ [Print ''Error: Configuration file 'config.json' not found.'']) \<and>
   (config_file w = Contents (JObj d) \<and>
    \<not> (truthy (dict_get d ''server_address'') \<and> truthy (dict_get d ''username'') \<and>
       truthy (dict_get d ''password'')) \<longrightarrow>
      fst (main ticks w) = (Exited 0, []) \<and> calls (snd (main ticks w)) = calls w \<and>
      prompts (snd (main ticks w)) = prompts w) \<and>
   (config_file w = Contents (JObj d) \<and>
    truthy (dict_get d ''server_address'') \<and> truthy (dict_get d ''username'') \<and>
    truthy (dict_get d ''password'') \<and>
    fst (get_access_token (dict_get d ''server_address'') (dict_get d ''username'')
           (dict_get d ''password'') w) = Inr None \<longrightarrow>
      fst (main ticks w) = (Exited 0, []) \<and>
      calls (snd (main ticks w))
        = calls w @ [login_request w (dict_get d ''server_address'') (dict_get d ''username'')
                       (dict_get d ''password'')] \<and>
      prompts (snd (main ticks w)) = prompts w) \<and>
   (fst (run_pending p (due t) w) = Inr () \<and> typed t = Some line \<and> lower line = ''q'' \<longrightarrow>
      fst (main_loop p (t # ts) w) = (Exited 0, jobs p))"
proof (intro conjI impI)
  assume "config_file w = FileNotFound"
  then show "fst (main ticks w) = (Exited 0, [])"
    and "trace (snd (main ticks w))
           = trace w @ [Print ''Error: Configuration file 'config.json' not found.'']"
    by (simp_all add: main_def load_config_simps)
next
  assume a: "config_file w = Contents (JObj d) \<and>
    \<not> (truthy (dict_get d ''server_address'') \<and> truthy (dict_get d ''username'') \<and>
       truthy (dict_get d ''password''))"
  then have run: "main ticks w =
      (if d \<noteq> [] then ((Exited 0, []),
         print ''Error: Missing login credentials in config. Script will exit.'' w)
       else ((Exited 0, []), w))"
    by (auto simp add: main_def load_config_simps Let_def)
  show "fst (main ticks w) = (Exited 0, [])" by (simp add: run)
  show "calls (snd (main ticks w)) = calls w" by (simp add: run)
  show "prompts (snd (main ticks w)) = prompts w" by (simp add: run)
next
  assume a: "config_file w = Contents (JObj d) \<and>
    truthy (dict_get d ''server_address'') \<and> truthy (dict_get d ''username'') \<and>
    truthy (dict_get d ''password'') \<and>
    fst (get_access_token (dict_get d ''server_address'') (dict_get d ''username'')
           (dict_get d ''password'') w) = Inr None"
  define w2 where "w2 = snd (get_access_token (dict_get d ''server_address'')
                               (dict_get d ''username'') (dict_get d ''password'') w)"
  from a have login: "get_access_token (dict_get d ''server_address'') (dict_get d ''username'')
                        (dict_get d ''password'') w = (Inr None, w2)"
    by (simp add: w2_def prod_eq_iff)
  from a have "d \<noteq> []" by (auto simp add: dict_get_def)
  with a login have run: "main ticks w =
      ((Exited 0, []), print ''Error: Could not retrieve access token. Script will exit.'' w2)"
    by (simp add: main_def load_config_simps Let_def)
  show "fst (main ticks w) = (Exited 0, [])" by (simp add: run)
  show "calls (snd (main ticks w))
        = calls w @ [login_request w (dict_get d ''server_address'') (dict_get d ''username'')
                       (dict_get d ''password'')]"
    by (simp add: run w2_def get_access_token_call)
  show "prompts (snd (main ticks w)) = prompts w" by (simp add: run w2_def)
next
  assume a: "fst (run_pending p (due t) w) = Inr () \<and> typed t = Some line \<and> lower line = ''q''"
  then have "fst (loop_body p t w) = Break"
    by (auto simp add: loop_body_break)
  then show "fst (main_loop p (t # ts) w) = (Exited 0, jobs p)"
    by (cases "loop_body p t w") simp
qed

theorem main_early_exit_witness:
  "config_file (example_world FileNotFound []) = FileNotFound \<and>
   fst (main [] (example_world FileNotFound [])) = (Exited 0, []) \<and>
   \<not> truthy (dict_get [(''server_address'', JStr ''http://h'')] ''username'') \<and>
   fst (main [] (example_world (Contents (JObj [(''server_address'', JStr ''http://h'')])) []))
     = (Exited 0, []) \<and>
   fst (get_access_token (JStr ''http://h'') (JStr ''u'') (JStr ''p'')
          (example_world (Contents example_config) [status_reply 401 ''401 Client Error'']))
     = Inr None \<and>
   fst (main [] (example_world (Contents example_config) [status_reply 401 ''401 Client Error'']))
     = (Exited 0, []) \<and>
   lower ''q'' = ''q'' \<and>
   fst (main_loop example_prog [\<lparr>due = [], typed = Some ''q''\<rparr>] (example_world FileNotFound []))
     = (Exited 0, [])"
proof -
  have login: "fst (get_access_token (JStr ''http://h'') (JStr ''u'') (JStr ''p'')
          (example_world (Contents example_config) [status_reply 401 ''401 Client Error'']))
     = Inr None"
    by (simp add: get_access_token_unfold Let_def status_reply_def raise_for_status_def)
  have q: "lower ''q'' = ''q''"
    by (simp add: lower_def lower_char_def)
  have run: "fst (run_pending example_prog (due \<lparr>due = [], typed = Some ''q''\<rparr>)
                    (example_world FileNotFound [])) = Inr ()"
    by (simp add: run_pending_def)
  show ?thesis
    using main_early_exit [where w = "example_world FileNotFound []" and ticks = "[]"]
      main_early_exit [where w = "example_world (Contents (JObj [(''server_address'', JStr ''http://h'')])) []"
                         and d = "[(''server_address'', JStr ''http://h'')]" and ticks = "[]"]
      main_early_exit [where w = "example_world (Contents example_config)
                                    [status_reply 401 ''401 Client Error'']"
                         and d = "[(''server_address'', JStr ''http://h''), (''username'', JStr ''u''),
                                   (''password'', JStr ''p''), (''process_id'', JStr ''42'')]"
                         and ticks = "[]"]
      main_early_exit [where p = example_prog and t = "\<lparr>due = [], typed = Some ''q''\<rparr>"
                         and w = "example_world FileNotFound []" and line = "''q''" and ts = "[]"]
      login q run
    by (simp add: example_config_def dict_get_def example_prog_def)
qed

theorem main_exit_status_counterexample:
  "fst (fst (main [] (example_world FileNotFound []))) = Exited 0 \<and>
   fst (fst (main [] (example_world (Contents example_config)
                        [status_reply 401 ''401 Client Error'']))) = Exited 0"
  by (simp add: main_def load_config_simps example_config_def dict_get_def Let_def
        get_access_token_unfold status_reply_def raise_for_status_def)

text \<open>
  C1: every outbound command issued by \<open>connect_stream\<close> or \<open>disconnect_stream\<close> is to
  carry the most recently obtained access token. The run \<open>stale_world\<close> shows what the
  script does: the scheduled refresh obtains the token \<^verbatim>\<open>xyz\<close>, and the two commands of the
  manual connect that follows still carry \<^verbatim>\<open>abc\<close>, the token of the startup login. The
  scheduler drops what \<open>refresh_access_token\<close> returns, and nothing stores it under
  \<^verbatim>\<open>authorization_token\<close>.
\<close>

theorem stale_token_after_refresh:
  "fst (refresh_access_token (JStr ''http://h'') (JStr ''u'') (JStr ''p'')
          (snd (main [] stale_world))) = Inr (Some (JStr ''xyz'')) \<and>
   fst (main [\<lparr>due = [0], typed = Some ''c''\<rparr>] stale_world) = (Running, jobs stale_prog) \<and>
   map req_headers (calls (snd (main [\<lparr>due = [0], typed = Some ''c''\<rparr>] stale_world)))
     = [[], [],
        [(''Content-Type'', ''application/json''), (''Authorization'', ''Bearer abc'')],
        [(''Content-Type'', ''application/json''), (''Authorization'', ''Bearer abc'')]]"
proof -
  define w4 where "w4 = snd (main [] stale_world)"
  have startup: "main ticks stale_world = main_loop stale_prog ticks w4" for ticks
    unfolding w4_def
    by (simp add: main_def load_config_simps stale_world_def example_config_def dict_get_def
          Let_def get_access_token_unfold login_request_def ok_reply_def raise_for_status_def
          py_get_def schedule_jobs_def stale_prog_def)
  have w4: "calls w4 = [login_request stale_world (JStr ''http://h'') (JStr ''u'') (JStr ''p'')]"
    "net w4 = net stale_world" "fstr w4 = fstr stale_world"
    unfolding w4_def
    by (simp_all add: main_def load_config_simps stale_world_def example_config_def dict_get_def
          Let_def get_access_token_unfold login_request_def ok_reply_def raise_for_status_def
          py_get_def schedule_jobs_def)
  have login_eq: "login_request w4 (JStr ''http://h'') (JStr ''u'') (JStr ''p'')
                    = login_request stale_world (JStr ''http://h'') (JStr ''u'') (JStr ''p'')"
    by (simp add: login_request_def)
  define w5 where "w5 = snd (refresh_access_token (JStr ''http://h'') (JStr ''u'') (JStr ''p'') w4)"
  have refresh: "refresh_access_token (JStr ''http://h'') (JStr ''u'') (JStr ''p'') w4
                   = (Inr (Some (JStr ''xyz'')), w5)"
    unfolding w5_def
    by (simp add: refresh_access_token_unfold Let_def w4 login_eq stale_world_def scripted_nth
          ok_reply_def raise_for_status_def py_get_def dict_get_def)
  have w5: "calls w5 = calls w4 @ [login_request stale_world (JStr ''http://h'') (JStr ''u'') (JStr ''p'')]"
    unfolding w5_def using refresh_same_calls [of "JStr ''http://h''" "JStr ''u''" "JStr ''p''" w4]
    by (simp add: login_eq)
  have pending: "run_pending stale_prog [0] w4 = (Inr (), w5)"
    by (simp add: run_pending_def stale_prog_def run_job_def refresh)
  have args: "stream_args (config stale_prog) = Inr (JStr ''http://h'', JStr ''42'', JStr ''abc'')"
    by (simp add: stream_args_def dict_item_def stale_prog_def)
  define w7 where "w7 = emit (Prompt prompt) (emit (Sleep 1) w5)"
  have w7: "calls w7 = calls w5"
    by (simp add: w7_def calls_emit)
  define w8 where "w8 = snd (connect_stream (config stale_prog) w7)"
  have connect: "connect_stream (config stale_prog) w7 = (Inr JNull, w8)"
    unfolding w8_def by (simp add: prod_eq_iff connect_stream_ok [OF args])
  have pass: "loop_body stale_prog \<lparr>due = [0], typed = Some ''c''\<rparr> w4 = (Continue, w8)"
    using connect unfolding w7_def
    by (simp add: loop_body_def pending Let_def lower_def lower_char_def)
  have run: "main [\<lparr>due = [0], typed = Some ''c''\<rparr>] stale_world = ((Running, jobs stale_prog), w8)"
    by (simp add: startup pass)
  have "calls w8 = calls w7 @ [command_request w7 (JStr ''http://h'') (JStr ''42'') (JStr ''abc'') ''start'' False,
                               command_request w7 (JStr ''http://h'') (JStr ''42'') (JStr ''abc'') ''start'' True]"
    unfolding w8_def by (rule connect_stream_sends [OF args])
  then have headers: "map req_headers (calls w8)
     = [[], [],
        [(''Content-Type'', ''application/json''), (''Authorization'', ''Bearer abc'')],
        [(''Content-Type'', ''application/json''), (''Authorization'', ''Bearer abc'')]]"
    by (simp add: w7 w5 w4 login_request_def command_request_def)
  from refresh have "fst (refresh_access_token (JStr ''http://h'') (JStr ''u'') (JStr ''p'') w4)
                       = Inr (Some (JStr ''xyz''))"
    by simp
  then show ?thesis
    unfolding w4_def [symmetric] by (simp add: run headers)
qed

end
